theory Spec2Isabelle
  imports Complex_Main "HOL-Library.Log_Nat"
begin

section \<open>Transformer report form: the computational helpers of trafoAppB1.py\<close>

text \<open>
  The embedding follows \<^verbatim>\<open>src/trafoAppB1.py\<close>. Conventions:
  \<^item> a Python \<^verbatim>\<open>float\<close> is a double: a finite value (a real number), an infinity or a
    not-a-number; every operation on floats rounds its exact result to the nearest double;
  \<^item> a Python \<^verbatim>\<open>str\<close> is a \<^typ>\<open>string\<close>; \<open>lower\<close> and \<open>upper\<close> act on the 26 ASCII
    letters and leave every other character alone, which decides a comparison with
    \<^verbatim>\<open>"aceite"\<close> or \<^verbatim>\<open>"seco"\<close> as \<^verbatim>\<open>str.lower\<close> does;
  \<^item> a raised exception is the \<open>Inl\<close> branch of a sum.
\<close>

subsection \<open>Exceptions\<close>

text \<open>
  \<open>ValueError_tipo\<close> is the \<^verbatim>\<open>ValueError\<close> raised by hand in
  \<^verbatim>\<open>obtener_valor_por_temperatura\<close>; \<open>ValueError_min\<close> is the one \<^verbatim>\<open>min\<close> raises
  on an empty sequence; \<open>ValueError_float\<close> is the one \<^verbatim>\<open>float\<close> raises on a text that
  is not a number; \<open>IndexError\<close> and \<open>KeyError\<close> are the out-of-range read of a list and
  the read of a missing dictionary key; \<open>AttributeError\<close> is the call of \<^verbatim>\<open>.lower()\<close> on a
  value that is not a string; \<open>OverflowError\<close> is \<^verbatim>\<open>float\<close> on an integer beyond the
  doubles.
\<close>

datatype error =
  ValueError_tipo | ValueError_min | ValueError_float | IndexError | KeyError | AttributeError
  | OverflowError

subsection \<open>Floats\<close>

text \<open>
  A Python \<^verbatim>\<open>float\<close> is an IEEE 754 double: a finite value, an infinity or a
  not-a-number. A finite double is \<open>m * 2 ^ e\<close> with \<open>\<bar>m\<bar> < 2 ^ 53\<close> and \<open>- 1074 \<le> e\<close>.
  \<open>exp_cuanto x\<close> is the exponent of the spacing of the doubles around \<open>x\<close>: \<open>e - 52\<close>
  when \<open>2 ^ e \<le> \<bar>x\<bar> < 2 ^ (e + 1)\<close>, and never below \<open>- 1074\<close>. \<open>redondear x\<close> is the
  multiple of that spacing nearest to \<open>x\<close>, the even one on a tie; \<open>a_float\<close> is the
  result of an operation whose exact value is \<open>x\<close>, an infinity from \<open>2 ^ 1024\<close> on.
\<close>

datatype pyfloat = Finito real | Inf_pos | Inf_neg | NaN

definition exp_cuanto :: "real \<Rightarrow> int" where
  "exp_cuanto x = max (bitlen \<lfloor>\<bar>x\<bar> * 2 ^ 1074\<rfloor> - 1127) (- 1074)"

definition cuanto :: "real \<Rightarrow> real" where
  "cuanto x = 2 powi exp_cuanto x"

definition redondeo_par :: "real \<Rightarrow> int" where
  "redondeo_par y =
     (let n = \<lfloor>y\<rfloor>; r = y - of_int n
      in if r < 1 / 2 then n else if 1 / 2 < r then n + 1 else if even n then n else n + 1)"

definition redondear :: "real \<Rightarrow> real" where
  "redondear x = of_int (redondeo_par (x / cuanto x)) * cuanto x"

definition a_float :: "real \<Rightarrow> pyfloat" where
  "a_float x =
     (let r = redondear x
      in if 2 ^ 1024 \<le> \<bar>r\<bar> then (if 0 < r then Inf_pos else Inf_neg) else Finito r)"

text \<open>
  The operations of the source on floats: \<^verbatim>\<open>a < b\<close>, \<^verbatim>\<open>abs(a)\<close>, \<^verbatim>\<open>n - a\<close> for an
  integer \<open>n\<close> that is itself a double (below \<open>2 ^ 53\<close> in magnitude), the product of two
  finite floats, and \<^verbatim>\<open>a >= n\<close> for an integer \<open>n\<close>.
\<close>

fun flt :: "pyfloat \<Rightarrow> pyfloat \<Rightarrow> bool" where
  "flt (Finito a) (Finito b) = (a < b)"
| "flt (Finito a) Inf_pos = True"
| "flt Inf_neg (Finito b) = True"
| "flt Inf_neg Inf_pos = True"
| "flt a b = False"

fun fabs :: "pyfloat \<Rightarrow> pyfloat" where
  "fabs (Finito a) = Finito \<bar>a\<bar>"
| "fabs Inf_pos = Inf_pos"
| "fabs Inf_neg = Inf_pos"
| "fabs NaN = NaN"

fun int_menos_float :: "int \<Rightarrow> pyfloat \<Rightarrow> pyfloat" where
  "int_menos_float n (Finito a) = a_float (real_of_int n - a)"
| "int_menos_float n Inf_pos = Inf_neg"
| "int_menos_float n Inf_neg = Inf_pos"
| "int_menos_float n NaN = NaN"

definition fmul :: "real \<Rightarrow> real \<Rightarrow> pyfloat" where
  "fmul a b = a_float (a * b)"

fun fge_int :: "pyfloat \<Rightarrow> int \<Rightarrow> bool" where
  "fge_int (Finito a) n = (real_of_int n \<le> a)"
| "fge_int Inf_pos n = True"
| "fge_int Inf_neg n = False"
| "fge_int NaN n = False"

subsection \<open>Strings: \<^verbatim>\<open>str.lower\<close> and \<^verbatim>\<open>str.upper\<close>\<close>

definition ascii_uppercase :: string where
  "ascii_uppercase = ''ABCDEFGHIJKLMNOPQRSTUVWXYZ''"

definition ascii_lowercase :: string where
  "ascii_lowercase = ''abcdefghijklmnopqrstuvwxyz''"

definition lower_char :: "char \<Rightarrow> char" where
  "lower_char c =
     (case map_of (zip ascii_uppercase ascii_lowercase) c of Some d \<Rightarrow> d | None \<Rightarrow> c)"

definition upper_char :: "char \<Rightarrow> char" where
  "upper_char c =
     (case map_of (zip ascii_lowercase ascii_uppercase) c of Some d \<Rightarrow> d | None \<Rightarrow> c)"

definition lower :: "string \<Rightarrow> string" where
  "lower s = map lower_char s"

definition upper :: "string \<Rightarrow> string" where
  "upper s = map upper_char s"

subsection \<open>Built-ins: \<^verbatim>\<open>range\<close>, \<^verbatim>\<open>min\<close> with a key, list indexing\<close>

text \<open>
  \<^verbatim>\<open>list(range(start, stop, step))\<close> for a positive step, the only use in the source.
\<close>

definition py_range :: "int \<Rightarrow> int \<Rightarrow> int \<Rightarrow> int list" where
  "py_range start stop step =
     map (\<lambda>k. start + int k * step) [0..<nat ((stop - start + step - 1) div step)]"

text \<open>
  \<^verbatim>\<open>min(seq, key=f)\<close> keeps the first item and replaces it by a later one only when
  the later key is less than the kept one, by the \<^verbatim>\<open><\<close> of the keys (\<open>lt\<close>); on an empty
  sequence it raises.
\<close>

fun min_scan :: "('k \<Rightarrow> 'k \<Rightarrow> bool) \<Rightarrow> ('a \<Rightarrow> 'k) \<Rightarrow> 'a \<Rightarrow> 'a list \<Rightarrow> 'a" where
  "min_scan lt key best [] = best"
| "min_scan lt key best (x # xs) =
     min_scan lt key (if lt (key x) (key best) then x else best) xs"

definition py_min :: "'a list \<Rightarrow> ('k \<Rightarrow> 'k \<Rightarrow> bool) \<Rightarrow> ('a \<Rightarrow> 'k) \<Rightarrow> error + 'a" where
  "py_min xs lt key =
     (case xs of [] \<Rightarrow> Inl ValueError_min | x # rest \<Rightarrow> Inr (min_scan lt key x rest))"

definition py_index :: "'a list \<Rightarrow> nat \<Rightarrow> error + 'a" where
  "py_index xs i = (if i < length xs then Inr (xs ! i) else Inl IndexError)"

subsection \<open>\<^verbatim>\<open>obtener_valor_por_temperatura\<close>\<close>

text \<open>
  The three lists; a decimal literal of the source denotes the double nearest to it.
\<close>

definition temperaturas :: "int list" where
  "temperaturas = py_range (-10) 115 5"

definition valores_aceite :: "real list" where
  "valores_aceite = map redondear
     [0.125, 0.180, 0.25, 0.36, 0.50, 0.75, 1.00, 1.40, 1.98, 2.80,
      3.95, 5.60, 7.85, 11.20, 15.85, 22.40, 31.75, 44.70, 63.50,
      89.789, 127.00, 180.00, 254.00, 359.15, 509.00]"

definition valores_seco :: "real list" where
  "valores_seco = map redondear
     [0.25, 0.32, 0.40, 0.50, 0.63, 0.81, 1.00, 1.25, 1.58, 2.00,
      2.50, 3.15, 3.98, 5.00, 6.30, 7.90, 10.00, 12.60, 15.80,
      20.00, 25.20, 31.60, 40.00, 50.40, 63.20]"

text \<open>The \<^verbatim>\<open>if / elif / else\<close> that selects the list of values.\<close>

definition seleccionar_valores :: "string \<Rightarrow> error + real list" where
  "seleccionar_valores tipo_aislamiento =
     (if lower tipo_aislamiento = ''aceite'' then Inr valores_aceite
      else if lower tipo_aislamiento = ''seco'' then Inr valores_seco
      else Inl ValueError_tipo)"

text \<open>
  The key of the scan, \<^verbatim>\<open>abs(temperaturas[i] - temperatura_prueba)\<close>, computed in
  doubles; the scan runs over \<^verbatim>\<open>range(len(temperaturas))\<close>, so the read is in range.
\<close>

definition distancia :: "pyfloat \<Rightarrow> nat \<Rightarrow> pyfloat" where
  "distancia temperatura_prueba i = fabs (int_menos_float (temperaturas ! i) temperatura_prueba)"

definition indice_cercano :: "pyfloat \<Rightarrow> error + nat" where
  "indice_cercano temperatura_prueba =
     py_min [0..<length temperaturas] flt (distancia temperatura_prueba)"

definition obtener_valor_por_temperatura :: "pyfloat \<Rightarrow> string \<Rightarrow> error + real" where
  "obtener_valor_por_temperatura temperatura_prueba tipo_aislamiento =
     (case seleccionar_valores tipo_aislamiento of
        Inl e \<Rightarrow> Inl e
      | Inr valores \<Rightarrow>
          (case indice_cercano temperatura_prueba of
             Inl e \<Rightarrow> Inl e
           | Inr i \<Rightarrow> py_index valores i))"

subsection \<open>Step 4 of the form: the table of insulation resistance\<close>

text \<open>
  \<^verbatim>\<open>st.session_state.data\<close> is a dictionary from strings to values; the values step 4
  reads and writes are floats, integers and strings. The values the widgets return are
  inputs of the step: \<^verbatim>\<open>number_input\<close> returns a finite float, \<^verbatim>\<open>text_input\<close> and
  \<^verbatim>\<open>text_area\<close> return a string. Python's \<^verbatim>\<open>float\<close> on a string is the parameter
  \<open>py_float\<close>, \<open>None\<close> where it raises. An exception leaves the step with the
  dictionary as the assignments before it have made it.
\<close>

datatype valor = VFloat pyfloat | VInt int | VStr string

type_synonym session_data = "string \<rightharpoonup> valor"

record widgets =
  res_medida_avst_number :: real
  res_medida_avst_text :: string
  res_medida_avsb :: real
  res_medida_bvst :: real
  comentarios_prueba :: string

text \<open>\<^verbatim>\<open>data.get(k, v)\<close>, and \<^verbatim>\<open>float(x)\<close> on a stored value.\<close>

definition get_default :: "session_data \<Rightarrow> string \<Rightarrow> valor \<Rightarrow> valor" where
  "get_default d k v = (case d k of None \<Rightarrow> v | Some x \<Rightarrow> x)"

definition float_de :: "(string \<Rightarrow> pyfloat option) \<Rightarrow> valor \<Rightarrow> error + pyfloat" where
  "float_de py_float v =
     (case v of
        VFloat a \<Rightarrow> Inr a
      | VInt n \<Rightarrow>
          (case a_float (real_of_int n) of Finito r \<Rightarrow> Inr (Finito r) | _ \<Rightarrow> Inl OverflowError)
      | VStr s \<Rightarrow> (case py_float s of None \<Rightarrow> Inl ValueError_float | Some a \<Rightarrow> Inr a))"

text \<open>
  The factor of every referred resistance: the call
  \<^verbatim>\<open>obtener_valor_por_temperatura(temperatura_prueba=float(data.get('temperaturaPrueba', 0)),
  tipo_aislamiento=data.get('tipoAislamiento', 'NA'))\<close>.
\<close>

definition factor_correccion :: "(string \<Rightarrow> pyfloat option) \<Rightarrow> session_data \<Rightarrow> error + real" where
  "factor_correccion py_float d =
     (case float_de py_float (get_default d ''temperaturaPrueba'' (VInt 0)) of
        Inl e \<Rightarrow> Inl e
      | Inr temperatura_prueba \<Rightarrow>
          (case get_default d ''tipoAislamiento'' (VStr ''NA'') of
             VStr tipo_aislamiento \<Rightarrow>
               obtener_valor_por_temperatura temperatura_prueba tipo_aislamiento
           | _ \<Rightarrow> Inl AttributeError))"

text \<open>
  The threshold \<^verbatim>\<open>a if data['tipoAislamiento'] == "Aceite" else b\<close> and the label
  \<^verbatim>\<open>'Cumple' if res_referida >= esp else 'No Cumple'\<close>.
\<close>

definition res_esp :: "session_data \<Rightarrow> int \<Rightarrow> int \<Rightarrow> error + int" where
  "res_esp d a b =
     (case d ''tipoAislamiento'' of
        None \<Rightarrow> Inl KeyError
      | Some v \<Rightarrow> Inr (if v = VStr ''Aceite'' then a else b))"

definition resultado :: "pyfloat \<Rightarrow> int \<Rightarrow> string" where
  "resultado res_referida esp = (if fge_int res_referida esp then ''Cumple'' else ''No Cumple'')"

text \<open>
  The branch \<^verbatim>\<open>carTrafo_NroFases == 3\<close> and the \<^verbatim>\<open>else\<close> branch, assignment by
  assignment; a referred resistance is the product of two doubles, itself a double; a
  value read back right after its assignment is the value assigned.
\<close>

definition paso_4_trifasico ::
  "(string \<Rightarrow> pyfloat option) \<Rightarrow> widgets \<Rightarrow> session_data \<Rightarrow> (error \<times> session_data) + session_data" where
  "paso_4_trifasico py_float w d0 =
     (let d1 = d0(''resMedida_AVST'' \<mapsto> VFloat (Finito (res_medida_avst_number w))) in
      case factor_correccion py_float d1 of Inl e \<Rightarrow> Inl (e, d1) | Inr f1 \<Rightarrow>
      let ref_avst = fmul (res_medida_avst_number w) f1;
          d2 = d1(''resReferida_AVST'' \<mapsto> VFloat ref_avst,
                  ''resMedida_AVSB'' \<mapsto> VFloat (Finito (res_medida_avsb w))) in
      case factor_correccion py_float d2 of Inl e \<Rightarrow> Inl (e, d2) | Inr f2 \<Rightarrow>
      let ref_avsb = fmul (res_medida_avsb w) f2;
          d3 = d2(''resReferida_AVSB'' \<mapsto> VFloat ref_avsb,
                  ''resMedida_BVST'' \<mapsto> VFloat (Finito (res_medida_bvst w))) in
      case factor_correccion py_float d3 of Inl e \<Rightarrow> Inl (e, d3) | Inr f3 \<Rightarrow>
      let ref_bvst = fmul (res_medida_bvst w) f3;
          d4 = d3(''resReferida_BVST'' \<mapsto> VFloat ref_bvst) in
      case res_esp d4 5 25 of Inl e \<Rightarrow> Inl (e, d4) | Inr esp_avst \<Rightarrow>
      let d5 = d4(''resEsp_AVST'' \<mapsto> VInt esp_avst) in
      case res_esp d5 5 25 of Inl e \<Rightarrow> Inl (e, d5) | Inr esp_avsb \<Rightarrow>
      let d6 = d5(''resEsp_AVSB'' \<mapsto> VInt esp_avsb) in
      case res_esp d6 1 5 of Inl e \<Rightarrow> Inl (e, d6) | Inr esp_bvst \<Rightarrow>
      let d7 = d6(''resEsp_BVST'' \<mapsto> VInt esp_bvst) in
      Inr (d7(''resultado_AVST'' \<mapsto> VStr (resultado ref_avst esp_avst),
              ''resultado_AVSB'' \<mapsto> VStr (resultado ref_avsb esp_avsb),
              ''resultado_BVST'' \<mapsto> VStr (resultado ref_bvst esp_bvst),
              ''comentariosPrueba'' \<mapsto> VStr (comentarios_prueba w))))"

definition paso_4_monofasico ::
  "(string \<Rightarrow> pyfloat option) \<Rightarrow> widgets \<Rightarrow> session_data \<Rightarrow> (error \<times> session_data) + session_data" where
  "paso_4_monofasico py_float w d0 =
     (let d1 = d0(''resMedida_AVST'' \<mapsto> VStr (res_medida_avst_text w),
                  ''resReferida_AVST'' \<mapsto> VStr ''-'',
                  ''resMedida_AVSB'' \<mapsto> VFloat (Finito (res_medida_avsb w))) in
      case factor_correccion py_float d1 of Inl e \<Rightarrow> Inl (e, d1) | Inr f2 \<Rightarrow>
      let ref_avsb = fmul (res_medida_avsb w) f2;
          d2 = d1(''resReferida_AVSB'' \<mapsto> VFloat ref_avsb,
                  ''resMedida_BVST'' \<mapsto> VFloat (Finito (res_medida_bvst w))) in
      case factor_correccion py_float d2 of Inl e \<Rightarrow> Inl (e, d2) | Inr f3 \<Rightarrow>
      let ref_bvst = fmul (res_medida_bvst w) f3;
          d3 = d2(''resReferida_BVST'' \<mapsto> VFloat ref_bvst) in
      case res_esp d3 5 25 of Inl e \<Rightarrow> Inl (e, d3) | Inr esp_avst \<Rightarrow>
      let d4 = d3(''resEsp_AVST'' \<mapsto> VInt esp_avst) in
      case res_esp d4 5 25 of Inl e \<Rightarrow> Inl (e, d4) | Inr esp_avsb \<Rightarrow>
      let d5 = d4(''resEsp_AVSB'' \<mapsto> VInt esp_avsb) in
      case res_esp d5 1 5 of Inl e \<Rightarrow> Inl (e, d5) | Inr esp_bvst \<Rightarrow>
      let d6 = d5(''resEsp_BVST'' \<mapsto> VInt esp_bvst) in
      Inr (d6(''resultado_AVST'' \<mapsto> VStr ''Cumple'',
              ''resultado_AVSB'' \<mapsto> VStr (resultado ref_avsb esp_avsb),
              ''resultado_BVST'' \<mapsto> VStr (resultado ref_bvst esp_bvst),
              ''comentariosPrueba'' \<mapsto> VStr (comentarios_prueba w))))"

definition es_3 :: "valor \<Rightarrow> bool" where
  "es_3 v = (v = VInt 3 \<or> v = VFloat (Finito 3))"

definition paso_4 ::
  "(string \<Rightarrow> pyfloat option) \<Rightarrow> widgets \<Rightarrow> session_data \<Rightarrow> (error \<times> session_data) + session_data" where
  "paso_4 py_float w d =
     (case d ''carTrafo_NroFases'' of
        None \<Rightarrow> Inl (KeyError, d)
      | Some n \<Rightarrow> if es_3 n then paso_4_trifasico py_float w d else paso_4_monofasico py_float w d)"

text \<open>
  Sessions at the start of step 4 with the widgets' values and the readings of the texts
  \<^verbatim>\<open>"20"\<close> and \<^verbatim>\<open>"0"\<close>; \<open>medida_limite\<close> is the double 12.499999999999998.
\<close>

definition ejemplo_float :: "string \<Rightarrow> pyfloat option" where
  "ejemplo_float s =
     (if s = ''20'' then Some (Finito 20) else if s = ''0'' then Some (Finito 0) else None)"

definition ejemplo_widgets :: widgets where
  "ejemplo_widgets =
     \<lparr>res_medida_avst_number = 10, res_medida_avst_text = ''-'', res_medida_avsb = 2,
      res_medida_bvst = 0.5, comentarios_prueba = ''ok''\<rparr>"

definition ejemplo_data :: "int \<Rightarrow> session_data" where
  "ejemplo_data fases =
     [''carTrafo_NroFases'' \<mapsto> VInt fases, ''tipoAislamiento'' \<mapsto> VStr ''Aceite'',
      ''temperaturaPrueba'' \<mapsto> VStr ''20'']"




subsection \<open>\<^verbatim>\<open>convertir_a_mayusculas\<close>\<close>

text \<open>
  The values the function tells apart: a string, a dictionary (its items in insertion
  order, with keys of any kind), a list, a tuple, and everything else. \<^verbatim>\<open>str.upper\<close> is
  the parameter \<open>str_upper\<close>; \<open>upper\<close> above is its restriction to ASCII letters.
\<close>

datatype atom = PNone | PBool bool | PInt int | PFloat real | PDate int int int

datatype pyval =
    PStr string
  | PDict "(pyval \<times> pyval) list"
  | PList "pyval list"
  | PTuple "pyval list"
  | POther atom

fun convertir_a_mayusculas :: "(string \<Rightarrow> string) \<Rightarrow> pyval \<Rightarrow> pyval" where
  "convertir_a_mayusculas str_upper (PStr s) = PStr (str_upper s)"
| "convertir_a_mayusculas str_upper (PDict items) =
     PDict (map (\<lambda>(k, v). (k, convertir_a_mayusculas str_upper v)) items)"
| "convertir_a_mayusculas str_upper (PList vs) = PList (map (convertir_a_mayusculas str_upper) vs)"
| "convertir_a_mayusculas str_upper (PTuple vs) = PTuple (map (convertir_a_mayusculas str_upper) vs)"
| "convertir_a_mayusculas str_upper (POther a) = POther a"

text \<open>
  Two observations of a value, to state what the function does: the strings among its
  values in traversal order (dictionary keys are not values), and what is left of the value
  when every such string is emptied.
\<close>

fun cadenas :: "pyval \<Rightarrow> string list" where
  "cadenas (PStr s) = [s]"
| "cadenas (PDict items) = concat (map (\<lambda>(k, v). cadenas v) items)"
| "cadenas (PList vs) = concat (map cadenas vs)"
| "cadenas (PTuple vs) = concat (map cadenas vs)"
| "cadenas (POther a) = []"

fun esqueleto :: "pyval \<Rightarrow> pyval" where
  "esqueleto (PStr s) = PStr []"
| "esqueleto (PDict items) = PDict (map (\<lambda>(k, v). (k, esqueleto v)) items)"
| "esqueleto (PList vs) = PList (map esqueleto vs)"
| "esqueleto (PTuple vs) = PTuple (map esqueleto vs)"
| "esqueleto (POther a) = POther a"

definition ejemplo_datos :: pyval where
  "ejemplo_datos =
     PDict [(PStr ''nombreProyecto'', PStr ''trafo x1''),
            (PStr ''carTrafo_NroFases'', POther (PInt 3)),
            (PStr ''lista'', PList [PStr ''a'', PTuple [PStr ''b c'', POther PNone]])]"

subsection \<open>\<^verbatim>\<open>get_map_png_bytes\<close>: the bounding box\<close>

text \<open>
  The tuple \<^verbatim>\<open>bbox\<close> computed from the reprojected point \<^verbatim>\<open>pt\<close>. The reprojection, the
  tiles and the rendering belong to libraries outside the source file.
\<close>

definition bbox :: "real \<times> real \<Rightarrow> real \<Rightarrow> real \<times> real \<times> real \<times> real" where
  "bbox pt buffer_m =
     (fst pt - buffer_m, snd pt - buffer_m, fst pt + buffer_m, snd pt + buffer_m)"

subsection \<open>Casing variants of a string\<close>

text \<open>
  Two characters are the same letter when they are equal or are the upper-case and the
  lower-case form of one ASCII letter; two strings are casing variants of each other when
  they agree letter by letter in that sense.
\<close>

definition same_letter :: "char \<Rightarrow> char \<Rightarrow> bool" where
  "same_letter c d =
     (c = d \<or> (c, d) \<in> set (zip ascii_uppercase ascii_lowercase)
            \<or> (d, c) \<in> set (zip ascii_uppercase ascii_lowercase))"

definition case_variant :: "string \<Rightarrow> string \<Rightarrow> bool" where
  "case_variant s s' = list_all2 same_letter s s'"

section \<open>Properties\<close>

subsection \<open>Rounding to a double\<close>

lemma exp_cuanto_ge: "- 1074 \<le> exp_cuanto x"
  by (simp add: exp_cuanto_def)

lemma pow_1074: "(2::real) ^ 1074 = 2 powi 1074"
  by (simp only: power_int_numeral)

lemma exp_cuanto_le:
  assumes "\<bar>x\<bar> < 2 powi (k + 53)" and "- 1074 \<le> k"
  shows "exp_cuanto x \<le> k"
proof -
  define N where "N = \<lfloor>\<bar>x\<bar> * 2 powi 1074\<rfloor>"
  have pos: "(0::real) < 2 powi 1074" by (rule zero_less_power_int) simp
  have "real_of_int N \<le> \<bar>x\<bar> * 2 powi 1074" unfolding N_def by (rule of_int_floor_le)
  also have "\<dots> < 2 powi (k + 53) * 2 powi 1074"
    using assms(1) pos by (rule mult_strict_right_mono)
  also have "\<dots> = 2 powi (k + 53 + 1074)" by (rule power_int_add [symmetric]) simp
  also have "k + 53 + 1074 = k + 1127" by simp
  also have "(2::real) powi (k + 1127) = 2 ^ nat (k + 1127)"
    using assms(2) by (simp add: power_int_def)
  finally have "real_of_int N < real_of_int (2 ^ nat (k + 1127))" by simp
  then have "N < 2 ^ nat (k + 1127)" by (simp only: of_int_less_iff)
  then have "bitlen N \<le> k + 1127" using assms(2) by (simp add: bitlen_le_iff_power)
  then show ?thesis using assms(2) unfolding exp_cuanto_def pow_1074 N_def by simp
qed



lemma cuanto_pos: "0 < cuanto x"
  by (simp add: cuanto_def)



lemma redondeo_par_of_int: "redondeo_par (of_int n) = n"
  by (simp add: redondeo_par_def)


lemma redondear_exact:
  assumes x: "x = real_of_int a * 2 powi p" and p: "exp_cuanto x \<le> p"
  shows "redondear x = x"
proof -
  define j where "j = exp_cuanto x"
  have "x / cuanto x = real_of_int a * (2 powi p / 2 powi j)"
    by (simp add: x [symmetric] cuanto_def j_def)
  also have "2 powi p / 2 powi j = (2::real) powi (p - j)" by (simp add: power_int_diff)
  also have "\<dots> = 2 ^ nat (p - j)" using p by (simp add: power_int_def j_def)
  finally have "x / cuanto x = real_of_int (a * 2 ^ nat (p - j))" by simp
  then have "redondeo_par (x / cuanto x) = a * 2 ^ nat (p - j)"
    by (simp only: redondeo_par_of_int)
  then have "redondear x = real_of_int (a * 2 ^ nat (p - j)) * cuanto x"
    by (simp add: redondear_def)
  also have "\<dots> = x / cuanto x * cuanto x"
    using \<open>x / cuanto x = real_of_int (a * 2 ^ nat (p - j))\<close> by simp
  also have "\<dots> = x" using cuanto_pos [of x] by simp
  finally show ?thesis .
qed


text \<open>Multiples of 1/8 below \<open>2 ^ 50\<close> in magnitude are doubles.\<close>

lemma redondear_octavos:
  assumes "\<bar>x\<bar> < 2 ^ 50" and "x * 8 = real_of_int a"
  shows "redondear x = x"
proof (rule redondear_exact)
  show "x = real_of_int a * 2 powi (- 3)" using assms(2) by (simp add: power_int_minus field_simps)
  have "\<bar>x\<bar> < 2 powi (- 3 + 53)" using assms(1) by simp
  then show "exp_cuanto x \<le> - 3" by (rule exp_cuanto_le) simp
qed

lemma a_float_Finito: "\<bar>redondear x\<bar> < 2 ^ 1024 \<Longrightarrow> a_float x = Finito (redondear x)"
  by (simp add: a_float_def Let_def)


subsection \<open>The scan\<close>

lemma min_scan_keep:
  "\<forall>x \<in> set xs. \<not> lt (key x) (key best) \<Longrightarrow> min_scan lt key best xs = best"
  by (induction xs) auto

lemma min_scan_mem: "min_scan lt key best xs \<in> set (best # xs)"
  by (induction xs arbitrary: best) (auto split: if_splits)

lemma min_scan_append:
  "min_scan lt key best (xs @ ys) = min_scan lt key (min_scan lt key best xs) ys"
  by (induction xs arbitrary: best) auto

text \<open>
  The scan returns the item at position \<open>k\<close> when its key is less than every earlier
  key and no later key is less than it.
\<close>

lemma min_scan_first_minimum:
  assumes k: "k < length xs"
    and before: "\<forall>j < k. lt (key (xs ! k)) (key (xs ! j))"
    and after: "\<forall>j < length xs. \<not> lt (key (xs ! j)) (key (xs ! k))"
  shows "py_min xs lt key = Inr (xs ! k)"
proof (cases k)
  case 0
  then obtain x rest where xs: "xs = x # rest" using k by (cases xs) auto
  have "\<forall>y \<in> set rest. \<not> lt (key y) (key x)"
  proof
    fix y assume "y \<in> set rest"
    then obtain j where "j < length rest" "rest ! j = y" by (auto simp: in_set_conv_nth)
    with after 0 xs show "\<not> lt (key y) (key x)" by (auto dest: spec [of _ "Suc j"])
  qed
  then show ?thesis using 0 xs by (simp add: py_min_def min_scan_keep)
next
  case (Suc k')
  then obtain x rest where xs: "xs = x # rest" using k by (cases xs) auto
  have k': "k' < length rest" using k Suc xs by simp
  define c where "c = rest ! k'"
  have c: "xs ! k = c" using Suc xs c_def by simp
  have rest: "rest = take k' rest @ c # drop (Suc k') rest"
    unfolding c_def using k' by (rule id_take_nth_drop)
  define b where "b = min_scan lt key x (take k' rest)"
  have "b \<in> set (x # take k' rest)" unfolding b_def by (rule min_scan_mem)
  then obtain j where j: "j < k" "xs ! j = b"
  proof (cases "b = x")
    case True
    then have "xs ! 0 = b" using xs by simp
    moreover have "0 < k" using Suc by simp
    ultimately show ?thesis using that by blast
  next
    case False
    with \<open>b \<in> set (x # take k' rest)\<close> have "b \<in> set (take k' rest)" by simp
    then obtain i where i: "i < length (take k' rest)" "take k' rest ! i = b"
      by (auto simp: in_set_conv_nth)
    then have "i < k'" by simp
    with i have "rest ! i = b" by simp
    then have "xs ! Suc i = b" using xs by simp
    moreover have "Suc i < k" using \<open>i < k'\<close> Suc by simp
    ultimately show ?thesis using that by blast
  qed
  with before c have lt: "lt (key c) (key b)" by auto
  have later: "\<forall>y \<in> set (drop (Suc k') rest). \<not> lt (key y) (key c)"
  proof
    fix y assume "y \<in> set (drop (Suc k') rest)"
    then have "y \<in> set xs" using xs by (auto dest: in_set_dropD)
    then obtain j where "j < length xs" "xs ! j = y" by (auto simp: in_set_conv_nth)
    with after c show "\<not> lt (key y) (key c)" by auto
  qed
  have "min_scan lt key x rest = min_scan lt key b (c # drop (Suc k') rest)"
    by (subst rest) (simp only: min_scan_append b_def)
  also have "\<dots> = min_scan lt key c (drop (Suc k') rest)" using lt by simp
  also have "\<dots> = c" using later by (rule min_scan_keep)
  finally show ?thesis using xs c by (simp add: py_min_def)
qed

subsection \<open>The table and the nearest index\<close>

lemma length_temperaturas: "length temperaturas = 25"
  by (simp add: temperaturas_def py_range_def)

lemma nth_temperaturas: "i < 25 \<Longrightarrow> temperaturas ! i = 5 * int i - 10"
  by (simp add: temperaturas_def py_range_def)

lemma temperaturas_eq:
  "temperaturas = [-10, -5, 0, 5, 10, 15, 20, 25, 30, 35, 40, 45, 50, 55, 60, 65, 70, 75, 80, 85, 90, 95, 100, 105, 110]"
  by code_simp

lemma length_valores: "length valores_aceite = 25" "length valores_seco = 25"
  by (simp_all add: valores_aceite_def valores_seco_def)

text \<open>
  The key at index \<open>i\<close> is the exact distance when that distance is a multiple of 1/8
  below 256, and within half a spacing of it otherwise.
\<close>

lemma distancia_exacta:
  assumes "i < 25" and "\<bar>5 * real i - 10 - t\<bar> < 256" and "(5 * real i - 10 - t) * 8 = real_of_int a"
  shows "distancia (Finito t) i = Finito \<bar>5 * real i - 10 - t\<bar>"
proof -
  have "\<bar>5 * real i - 10 - t\<bar> < 2 ^ 50" using assms(2) by simp
  then have r: "redondear (5 * real i - 10 - t) = 5 * real i - 10 - t"
    using assms(3) by (rule redondear_octavos)
  have "a_float (5 * real i - 10 - t) = Finito (5 * real i - 10 - t)"
    using assms(2) by (subst a_float_Finito) (simp_all add: r)
  then show ?thesis using assms(1) by (simp add: distancia_def nth_temperaturas)
qed


lemma indice_cercano_first_minimum:
  assumes "k < 25"
    and "\<forall>j < k. flt (distancia t k) (distancia t j)"
    and "\<forall>j < 25. \<not> flt (distancia t j) (distancia t k)"
  shows "indice_cercano t = Inr k"
proof -
  have "py_min [0..<25] flt (distancia t) = Inr ([0..<25] ! k)"
    using assms by (intro min_scan_first_minimum) auto
  then show ?thesis using assms(1) by (simp add: indice_cercano_def length_temperaturas)
qed

lemma indice_cercano_total: "\<exists>i < 25. indice_cercano t = Inr i"
proof -
  have l: "[0..<25] = 0 # [1..<25]" by (simp add: upt_conv_Cons)
  have "min_scan flt (distancia t) 0 [1..<25] \<in> set (0 # [1..<25])" by (rule min_scan_mem)
  then have "min_scan flt (distancia t) 0 [1..<25] < 25" by auto
  then show ?thesis
    by (simp add: indice_cercano_def length_temperaturas py_min_def l)
qed

lemma real_nat_cases: "real j \<le> real i \<or> real i + 1 \<le> real j"
proof (cases "j \<le> i")
  case True
  then show ?thesis by simp
next
  case False
  then have "Suc i \<le> j" by simp
  then have "real (Suc i) \<le> real j" by (simp only: of_nat_le_iff)
  then show ?thesis by simp
qed

lemma indice_sample:
  assumes "i < 25"
  shows "indice_cercano (Finito (real_of_int (temperaturas ! i))) = Inr i"
proof -
  let ?t = "real_of_int (temperaturas ! i)"
  have t: "?t = 5 * real i - 10" using assms by (simp add: nth_temperaturas)
  have d: "distancia (Finito ?t) j = Finito \<bar>5 * real j - 5 * real i\<bar>" if "j < 25" for j
  proof -
    have "real j < 25" "real i < 25" using that assms by simp_all
    then have "\<bar>5 * real j - 10 - ?t\<bar> < 256" unfolding t by (simp add: abs_if)
    moreover have "(5 * real j - 10 - ?t) * 8 = real_of_int (40 * int j - 40 * int i)"
      unfolding t by simp
    ultimately have "distancia (Finito ?t) j = Finito \<bar>5 * real j - 10 - ?t\<bar>"
      using that by (intro distancia_exacta)
    then show ?thesis unfolding t by simp
  qed
  show ?thesis
  proof (rule indice_cercano_first_minimum)
    show "i < 25" by fact
    show "\<forall>j<i. flt (distancia (Finito ?t) i) (distancia (Finito ?t) j)"
      using assms by (auto simp: d)
    show "\<forall>j<25. \<not> flt (distancia (Finito ?t) j) (distancia (Finito ?t) i)"
      using assms by (auto simp: d)
  qed
qed

lemma indice_midpoint:
  assumes "i < 24"
  shows "indice_cercano (Finito (real_of_int (temperaturas ! i) + 2.5)) = Inr i"
proof -
  let ?t = "real_of_int (temperaturas ! i) + 2.5"
  have i: "i < 25" using assms by simp
  have t: "?t = 5 * real i - 10 + 5 / 2" using i by (simp add: nth_temperaturas)
  have d: "distancia (Finito ?t) j = Finito \<bar>5 * real j - 5 * real i - 5 / 2\<bar>" if "j < 25" for j
  proof -
    have "real j < 25" "real i < 25" using that i by simp_all
    then have "\<bar>5 * real j - 10 - ?t\<bar> < 256" unfolding t by (simp add: abs_if)
    moreover have "(5 * real j - 10 - ?t) * 8 = real_of_int (40 * int j - 40 * int i - 20)"
      unfolding t by simp
    ultimately have "distancia (Finito ?t) j = Finito \<bar>5 * real j - 10 - ?t\<bar>"
      using that by (intro distancia_exacta)
    then show ?thesis unfolding t by (simp add: algebra_simps)
  qed
  show ?thesis
  proof (rule indice_cercano_first_minimum)
    show "i < 25" by fact
    show "\<forall>j<i. flt (distancia (Finito ?t) i) (distancia (Finito ?t) j)"
    proof (intro allI impI)
      fix j :: nat assume j: "j < i"
      then have "j < 25" using i by simp
      from j have "real j + 1 \<le> real i" using real_nat_cases [of i j] by simp
      then show "flt (distancia (Finito ?t) i) (distancia (Finito ?t) j)"
        unfolding d [OF i] d [OF \<open>j < 25\<close>] by simp
    qed
    show "\<forall>j<25. \<not> flt (distancia (Finito ?t) j) (distancia (Finito ?t) i)"
    proof (intro allI impI)
      fix j :: nat assume j: "j < 25"
      from real_nat_cases [of j i]
      show "\<not> flt (distancia (Finito ?t) j) (distancia (Finito ?t) i)"
        unfolding d [OF i] d [OF j] by auto
    qed
  qed
qed

lemma equidistant_midpoint:
  assumes "Suc i < 25"
    and "\<bar>real_of_int (temperaturas ! i) - t\<bar> = \<bar>real_of_int (temperaturas ! Suc i) - t\<bar>"
  shows "t = real_of_int (temperaturas ! i) + 2.5"
proof -
  have "i < 25" using assms(1) by simp
  from assms(2) have "\<bar>5 * real i - 10 - t\<bar> = \<bar>5 * real i - 5 - t\<bar>"
    using assms(1) \<open>i < 25\<close> by (simp add: nth_temperaturas)
  then have "t = 5 * real i - 10 + 2.5" by (simp add: abs_if split: if_splits)
  then show ?thesis using \<open>i < 25\<close> by (simp add: nth_temperaturas)
qed






lemma indice_no_finito:
  "indice_cercano Inf_pos = Inr 0" "indice_cercano Inf_neg = Inr 0" "indice_cercano NaN = Inr 0"
  by (rule indice_cercano_first_minimum; simp add: distancia_def)+

lemma valores_exactos:
  "valores_aceite ! 0 = 0.125" "valores_aceite ! 2 = 0.25" "valores_aceite ! 6 = 1"
  "valores_aceite ! 24 = 509" "valores_seco ! 0 = 0.25" "valores_seco ! 6 = 1"
proof -
  have "redondear 0.125 = 0.125" by (rule redondear_octavos [where a = 1]) simp_all
  moreover have "redondear 0.25 = 0.25" by (rule redondear_octavos [where a = 2]) simp_all
  moreover have "redondear 1 = 1" by (rule redondear_octavos [where a = 8]) simp_all
  moreover have "redondear 509 = 509" by (rule redondear_octavos [where a = 4072]) simp_all
  ultimately show "valores_aceite ! 0 = 0.125" "valores_aceite ! 2 = 0.25" "valores_aceite ! 6 = 1"
    "valores_aceite ! 24 = 509" "valores_seco ! 0 = 0.25" "valores_seco ! 6 = 1"
    by (simp_all add: valores_aceite_def valores_seco_def)
qed



lemma obtener_valor_at:
  assumes "seleccionar_valores tipo = Inr valores" "indice_cercano t = Inr i" "i < length valores"
  shows "obtener_valor_por_temperatura t tipo = Inr (valores ! i)"
  using assms by (simp add: obtener_valor_por_temperatura_def py_index_def)

lemma seleccionar_aceite: "lower tipo = ''aceite'' \<Longrightarrow> seleccionar_valores tipo = Inr valores_aceite"
  by (simp add: seleccionar_valores_def)

lemma seleccionar_seco: "lower tipo = ''seco'' \<Longrightarrow> seleccionar_valores tipo = Inr valores_seco"
  by (simp add: seleccionar_valores_def)

lemma seleccionar_invalid:
  "lower tipo \<noteq> ''aceite'' \<Longrightarrow> lower tipo \<noteq> ''seco'' \<Longrightarrow> seleccionar_valores tipo = Inl ValueError_tipo"
  by (simp add: seleccionar_valores_def)

lemma obtener_valor_total:
  assumes "lower tipo = ''aceite'' \<or> lower tipo = ''seco''"
  shows "\<exists>v. obtener_valor_por_temperatura t tipo = Inr v"
proof -
  obtain i where i: "i < 25" "indice_cercano t = Inr i" using indice_cercano_total by blast
  with assms show ?thesis
    by (auto simp: obtener_valor_por_temperatura_def seleccionar_valores_def py_index_def length_valores)
qed

lemma lower_literals:
  "lower ''aceite'' = ''aceite''" "lower ''ACEITE'' = ''aceite''" "lower ''Aceite'' = ''aceite''"
  "lower ''seco'' = ''seco''" "lower ''SECO'' = ''seco''" "lower ''Seco'' = ''seco''"
  "lower ''agua'' = ''agua''" "lower ''NA'' = ''na''"
  by (simp_all add: lower_def lower_char_def ascii_uppercase_def ascii_lowercase_def)

lemma length_ascii: "length ascii_uppercase = 26" "length ascii_lowercase = 26"
  by (simp_all add: ascii_uppercase_def ascii_lowercase_def)

lemma distinct_ascii_uppercase: "distinct ascii_uppercase"
  by (simp add: ascii_uppercase_def)

lemma ascii_cases_disjoint: "d \<in> set ascii_lowercase \<Longrightarrow> d \<notin> set ascii_uppercase"
  by (auto simp: ascii_uppercase_def ascii_lowercase_def)

lemma lower_char_pair:
  assumes "(c, d) \<in> set (zip ascii_uppercase ascii_lowercase)"
  shows "lower_char c = d \<and> lower_char d = d"
proof -
  have "map_of (zip ascii_uppercase ascii_lowercase) c = Some d"
    using assms by (intro map_of_is_SomeI) (simp_all add: length_ascii distinct_ascii_uppercase)
  moreover have "d \<in> set ascii_lowercase" using assms by (rule set_zip_rightD)
  then have "d \<notin> fst ` set (zip ascii_uppercase ascii_lowercase)"
    using ascii_cases_disjoint by (auto dest: set_zip_leftD)
  then have "map_of (zip ascii_uppercase ascii_lowercase) d = None"
    by (simp add: map_of_eq_None_iff)
  ultimately show ?thesis by (simp add: lower_char_def)
qed

lemma same_letter_lower: "same_letter c d \<Longrightarrow> lower_char c = lower_char d"
  unfolding same_letter_def by (auto dest: lower_char_pair)

lemma case_variant_lower: "case_variant s s' \<Longrightarrow> lower s = lower s'"
  unfolding case_variant_def lower_def
  by (induction rule: list_all2_induct) (auto dest: same_letter_lower)

subsection \<open>The lookup\<close>

text \<open>
  Claim C5. The table has exactly 25 temperature sample points, from -10 to 110 in steps
  of 5, strictly increasing, and the oil and the dry sequences of values each have
  length 25. The three lists are constants of the function: they depend on no argument.
\<close>

theorem reference_table_shape: "temperaturas = [-10, -5, 0, 5, 10, 15, 20, 25, 30, 35, 40, 45, 50, 55, 60, 65, 70, 75, 80, 85, 90, 95, 100, 105, 110]
    \<and> length temperaturas = 25 \<and> sorted_wrt (<) temperaturas
    \<and> length valores_aceite = 25 \<and> length valores_seco = 25"
  by (simp add: length_valores length_temperaturas) (simp add: temperaturas_eq)

text \<open>
  Claim C1. For either valid insulation kind, a temperature that is one of the 25 sample
  points yields the tabulated value at that point, and a temperature equidistant from the
  sample points \<open>i\<close> and \<open>i + 1\<close> yields the value at the lower index \<open>i\<close>.
\<close>

theorem lookup_sample_points_and_midpoints:
  assumes "lower tipo = ''aceite'' \<and> valores = valores_aceite
         \<or> lower tipo = ''seco'' \<and> valores = valores_seco"
  shows "(i < 25 \<longrightarrow>
            obtener_valor_por_temperatura (Finito (real_of_int (temperaturas ! i))) tipo
              = Inr (valores ! i))
       \<and> (Suc i < 25
            \<and> \<bar>real_of_int (temperaturas ! i) - t\<bar> = \<bar>real_of_int (temperaturas ! Suc i) - t\<bar> \<longrightarrow>
            obtener_valor_por_temperatura (Finito t) tipo = Inr (valores ! i))"
proof -
  from assms have sel: "seleccionar_valores tipo = Inr valores" and len: "length valores = 25"
    by (auto simp: seleccionar_aceite seleccionar_seco length_valores)
  have "obtener_valor_por_temperatura (Finito (real_of_int (temperaturas ! i))) tipo = Inr (valores ! i)"
    if "i < 25"
    using sel indice_sample [OF that] that len by (intro obtener_valor_at) simp_all
  moreover have "obtener_valor_por_temperatura (Finito t) tipo = Inr (valores ! i)"
    if "Suc i < 25" "\<bar>real_of_int (temperaturas ! i) - t\<bar> = \<bar>real_of_int (temperaturas ! Suc i) - t\<bar>"
  proof -
    have t: "t = real_of_int (temperaturas ! i) + 2.5" using that by (rule equidistant_midpoint)
    have "i < 24" using that(1) by simp
    then have "indice_cercano (Finito t) = Inr i" unfolding t by (rule indice_midpoint)
    then show ?thesis using sel len that(1) by (intro obtener_valor_at) simp_all
  qed
  ultimately show ?thesis by blast
qed

theorem lookup_sample_points_and_midpoints_witness:
  "obtener_valor_por_temperatura (Finito 20) ''Seco'' = Inr 1
   \<and> \<bar>real_of_int (temperaturas ! 2) - 2.5\<bar> = \<bar>real_of_int (temperaturas ! Suc 2) - 2.5\<bar>
   \<and> obtener_valor_por_temperatura (Finito 2.5) ''Aceite'' = Inr 0.25"
proof -
  have d: "\<bar>real_of_int (temperaturas ! 2) - 2.5\<bar> = \<bar>real_of_int (temperaturas ! Suc 2) - 2.5\<bar>"
    by (simp add: nth_temperaturas)
  have "obtener_valor_por_temperatura (Finito (real_of_int (temperaturas ! 6))) ''Seco''
      = Inr (valores_seco ! 6)"
    using lookup_sample_points_and_midpoints [of "''Seco''" valores_seco 6] by (simp add: lower_literals)
  moreover have "obtener_valor_por_temperatura (Finito 2.5) ''Aceite'' = Inr (valores_aceite ! 2)"
    using lookup_sample_points_and_midpoints [of "''Aceite''" valores_aceite 2 "2.5"] d
    by (simp add: lower_literals)
  ultimately show ?thesis using d
    by (simp add: nth_temperaturas valores_exactos)
qed




text \<open>
  Claim C3. The function raises its \<^verbatim>\<open>ValueError\<close> exactly when the lower-cased kind
  is neither \<^verbatim>\<open>"aceite"\<close> nor \<^verbatim>\<open>"seco"\<close>; for a valid kind it returns a value at every
  temperature, finite or not.
\<close>

theorem lookup_fails_iff_invalid_kind:
  "((\<exists>e. obtener_valor_por_temperatura t tipo = Inl e)
      \<longleftrightarrow> lower tipo \<noteq> ''aceite'' \<and> lower tipo \<noteq> ''seco'')
 \<and> (lower tipo \<noteq> ''aceite'' \<and> lower tipo \<noteq> ''seco'' \<longrightarrow>
      obtener_valor_por_temperatura t tipo = Inl ValueError_tipo)
 \<and> (lower tipo = ''aceite'' \<or> lower tipo = ''seco'' \<longrightarrow>
      (\<exists>v. obtener_valor_por_temperatura t tipo = Inr v))"
proof -
  obtain i where i: "i < 25" "indice_cercano t = Inr i" using indice_cercano_total by blast
  have "obtener_valor_por_temperatura t tipo = Inl ValueError_tipo"
    if "lower tipo \<noteq> ''aceite''" "lower tipo \<noteq> ''seco''"
    using that by (simp add: obtener_valor_por_temperatura_def seleccionar_invalid)
  moreover have "\<exists>v. obtener_valor_por_temperatura t tipo = Inr v"
    if "lower tipo = ''aceite'' \<or> lower tipo = ''seco''"
    using that i
    by (auto simp: obtener_valor_por_temperatura_def seleccionar_valores_def py_index_def length_valores)
  ultimately show ?thesis by (metis Inl_Inr_False)
qed

theorem lookup_fails_iff_invalid_kind_witness:
  "obtener_valor_por_temperatura (Finito 20) ''agua'' = Inl ValueError_tipo
   \<and> (\<exists>v. obtener_valor_por_temperatura NaN ''Seco'' = Inr v)"
  using lookup_fails_iff_invalid_kind [of "Finito 20" "''agua''"]
    lookup_fails_iff_invalid_kind [of NaN "''Seco''"]
  by (simp add: lower_literals)

text \<open>
  Claim C4. The result does not change when the kind is replaced by a casing variant of
  it; in particular \<^verbatim>\<open>"aceite"\<close> and \<^verbatim>\<open>"ACEITE"\<close>, and \<^verbatim>\<open>"seco"\<close> and \<^verbatim>\<open>"SECO"\<close>,
  give the same result at every temperature.
\<close>

theorem lookup_case_insensitive:
  "(case_variant tipo tipo' \<longrightarrow>
      obtener_valor_por_temperatura t tipo = obtener_valor_por_temperatura t tipo')
   \<and> obtener_valor_por_temperatura t ''aceite'' = obtener_valor_por_temperatura t ''ACEITE''
   \<and> obtener_valor_por_temperatura t ''seco'' = obtener_valor_por_temperatura t ''SECO''"
proof -
  have eq: "obtener_valor_por_temperatura t a = obtener_valor_por_temperatura t b"
    if "lower a = lower b" for a b
    using that by (simp add: obtener_valor_por_temperatura_def seleccionar_valores_def)
  have "obtener_valor_por_temperatura t tipo = obtener_valor_por_temperatura t tipo'"
    if "case_variant tipo tipo'"
    using that by (intro eq case_variant_lower)
  moreover have "obtener_valor_por_temperatura t ''aceite'' = obtener_valor_por_temperatura t ''ACEITE''"
    by (rule eq) (simp add: lower_literals)
  moreover have "obtener_valor_por_temperatura t ''seco'' = obtener_valor_por_temperatura t ''SECO''"
    by (rule eq) (simp add: lower_literals)
  ultimately show ?thesis by blast
qed

theorem lookup_case_insensitive_witness:
  "case_variant ''AcEiTe'' ''aceite''
   \<and> obtener_valor_por_temperatura (Finito 37) ''AcEiTe''
       = obtener_valor_por_temperatura (Finito 37) ''aceite''"
proof -
  have cv: "case_variant ''AcEiTe'' ''aceite''"
    by (simp add: case_variant_def same_letter_def ascii_uppercase_def ascii_lowercase_def)
  then show ?thesis using lookup_case_insensitive [of "''AcEiTe''" "''aceite''" "Finito 37"] by simp
qed

subsection \<open>Step 4\<close>

lemma get_default_upd: "k \<noteq> k' \<Longrightarrow> get_default (d(k \<mapsto> v)) k' x = get_default d k' x"
  by (simp add: get_default_def)

lemma factor_correccion_upd:
  "k \<noteq> ''temperaturaPrueba'' \<Longrightarrow> k \<noteq> ''tipoAislamiento'' \<Longrightarrow>
   factor_correccion py_float (d(k \<mapsto> v)) = factor_correccion py_float d"
  by (simp add: factor_correccion_def get_default_upd split: sum.splits)

lemma res_esp_upd: "k \<noteq> ''tipoAislamiento'' \<Longrightarrow> res_esp (d(k \<mapsto> v)) a b = res_esp d a b"
  by (simp add: res_esp_def)

lemma factor_correccion_eq:
  assumes "d ''tipoAislamiento'' = Some (VStr tipo)"
    and "float_de py_float (get_default d ''temperaturaPrueba'' (VInt 0)) = Inr t"
  shows "factor_correccion py_float d = obtener_valor_por_temperatura t tipo"
  using assms by (simp add: factor_correccion_def get_default_def)

lemma res_esp_eq:
  "d ''tipoAislamiento'' = Some (VStr tipo) \<Longrightarrow>
   res_esp d a b = Inr (if tipo = ''Aceite'' then a else b)"
  by (simp add: res_esp_def)


lemma paso_4_monofasico_ok:
  assumes f: "factor_correccion py_float d = Inr f"
    and tipo: "d ''tipoAislamiento'' = Some (VStr tipo)"
  shows "\<exists>d'. paso_4_monofasico py_float w d = Inr d'
     \<and> d' ''resReferida_AVST'' = Some (VStr ''-'')
     \<and> d' ''resReferida_AVSB'' = Some (VFloat (fmul (res_medida_avsb w) f))
     \<and> d' ''resReferida_BVST'' = Some (VFloat (fmul (res_medida_bvst w) f))
     \<and> d' ''resEsp_AVST'' = Some (VInt (if tipo = ''Aceite'' then 5 else 25))
     \<and> d' ''resEsp_AVSB'' = Some (VInt (if tipo = ''Aceite'' then 5 else 25))
     \<and> d' ''resEsp_BVST'' = Some (VInt (if tipo = ''Aceite'' then 1 else 5))
     \<and> d' ''resultado_AVST'' = Some (VStr ''Cumple'')
     \<and> d' ''resultado_AVSB'' = Some (VStr (resultado (fmul (res_medida_avsb w) f) (if tipo = ''Aceite'' then 5 else 25)))
     \<and> d' ''resultado_BVST'' = Some (VStr (resultado (fmul (res_medida_bvst w) f) (if tipo = ''Aceite'' then 1 else 5)))"
  using f tipo
  by (simp add: paso_4_monofasico_def Let_def factor_correccion_upd res_esp_upd res_esp_eq)

lemma paso_4_monofasico_AVST:
  assumes "paso_4_monofasico py_float w d = Inr d'"
  shows "d' ''resultado_AVST'' = Some (VStr ''Cumple'') \<and> d' ''resReferida_AVST'' = Some (VStr ''-'')"
  using assms
  by (auto simp: paso_4_monofasico_def Let_def split: sum.splits)

lemma paso_4_branch:
  "d ''carTrafo_NroFases'' = Some n \<Longrightarrow>
   paso_4 py_float w d = (if es_3 n then paso_4_trifasico py_float w d else paso_4_monofasico py_float w d)"
  by (simp add: paso_4_def)



lemma producto_exacto_menor: "(25 / 2 - 1 / 2 ^ 49) * (7205759403792794 / 2 ^ 54) < (5::real)"
  by simp







text \<open>
  Claim C10. On the single-phase path, whenever step 4 completes, the result for high
  against ground is \<^verbatim>\<open>"Cumple"\<close> and its referred resistance is the placeholder
  \<^verbatim>\<open>"-"\<close>, whatever the measurements, the temperature and the insulation kind are; and
  the step does complete for the kinds the form offers and a temperature that reads as a
  number.
\<close>

theorem single_phase_AVST_fixed:
  assumes fases: "d ''carTrafo_NroFases'' = Some n" and mono: "\<not> es_3 n"
  shows "(\<forall>d'. paso_4 py_float w d = Inr d' \<longrightarrow>
            d' ''resultado_AVST'' = Some (VStr ''Cumple'')
          \<and> d' ''resReferida_AVST'' = Some (VStr ''-''))
       \<and> (\<forall>tipo t. d ''tipoAislamiento'' = Some (VStr tipo)
            \<and> (tipo = ''Aceite'' \<or> tipo = ''Seco'')
            \<and> float_de py_float (get_default d ''temperaturaPrueba'' (VInt 0)) = Inr t
          \<longrightarrow> (\<exists>d'. paso_4 py_float w d = Inr d'))"
proof -
  have fixed: "d' ''resultado_AVST'' = Some (VStr ''Cumple'') \<and> d' ''resReferida_AVST'' = Some (VStr ''-'')"
    if "paso_4 py_float w d = Inr d'" for d'
  proof -
    from that have "paso_4_monofasico py_float w d = Inr d'"
      using paso_4_branch [of d n py_float w] fases mono by simp
    then show ?thesis by (rule paso_4_monofasico_AVST)
  qed
  have completes: "\<exists>d'. paso_4 py_float w d = Inr d'"
    if a: "d ''tipoAislamiento'' = Some (VStr tipo) \<and> (tipo = ''Aceite'' \<or> tipo = ''Seco'')
       \<and> float_de py_float (get_default d ''temperaturaPrueba'' (VInt 0)) = Inr t" for tipo t
  proof -
    from a have "lower tipo = ''aceite'' \<or> lower tipo = ''seco''" by (auto simp: lower_literals)
    then obtain f where "obtener_valor_por_temperatura t tipo = Inr f"
      using obtener_valor_total by blast
    then have "factor_correccion py_float d = Inr f"
      using factor_correccion_eq [of d tipo py_float t] a by simp
    from paso_4_monofasico_ok [OF this, of tipo w] a
    obtain d' where "paso_4_monofasico py_float w d = Inr d'" by blast
    then show ?thesis
      using paso_4_branch [of d n py_float w] fases mono by simp
  qed
  from fixed completes show ?thesis by blast
qed

theorem single_phase_AVST_fixed_witness:
  "\<exists>d'. paso_4 ejemplo_float ejemplo_widgets (ejemplo_data 1) = Inr d'
     \<and> d' ''resultado_AVST'' = Some (VStr ''Cumple'')
     \<and> d' ''resReferida_AVST'' = Some (VStr ''-'')"
proof -
  have f: "ejemplo_data 1 ''carTrafo_NroFases'' = Some (VInt 1)" and m: "\<not> es_3 (VInt 1)"
    by (simp_all add: ejemplo_data_def es_3_def)
  have "ejemplo_data 1 ''tipoAislamiento'' = Some (VStr ''Aceite'')"
    and "float_de ejemplo_float (get_default (ejemplo_data 1) ''temperaturaPrueba'' (VInt 0))
      = Inr (Finito 20)"
    by (simp_all add: ejemplo_data_def ejemplo_float_def get_default_def float_de_def)
  with f m single_phase_AVST_fixed
    [of "ejemplo_data 1" "VInt 1" ejemplo_float ejemplo_widgets]
  show ?thesis by blast
qed

subsection \<open>The upper-case traversal\<close>

lemma cadenas_convertir:
  "cadenas (convertir_a_mayusculas up v) = map up (cadenas v)"
  by (induction v rule: cadenas.induct) (auto simp: map_concat o_def split_def intro!: arg_cong [of _ _ concat])

lemma esqueleto_convertir:
  "esqueleto (convertir_a_mayusculas up v) = esqueleto v"
  by (induction v rule: esqueleto.induct) (auto simp: split_def)

text \<open>
  Claim C9. \<^verbatim>\<open>convertir_a_mayusculas\<close> is defined on every value. It replaces each string
  among the values by its upper-case form, in place and in order; it keeps everything else:
  the kind of each container, the keys of each dictionary, the length and order of each
  list and tuple, and every value of another kind.
\<close>

theorem convertir_a_mayusculas_deep:
  "cadenas (convertir_a_mayusculas str_upper v) = map str_upper (cadenas v)
   \<and> esqueleto (convertir_a_mayusculas str_upper v) = esqueleto v
   \<and> convertir_a_mayusculas str_upper (PStr s) = PStr (str_upper s)
   \<and> convertir_a_mayusculas str_upper (POther a) = POther a
   \<and> (\<exists>ws. convertir_a_mayusculas str_upper (PList vs) = PList ws \<and> length ws = length vs)
   \<and> (\<exists>ws. convertir_a_mayusculas str_upper (PTuple vs) = PTuple ws \<and> length ws = length vs)
   \<and> (\<exists>ws. convertir_a_mayusculas str_upper (PDict items) = PDict ws
           \<and> map fst ws = map fst items)"
  by (simp add: cadenas_convertir esqueleto_convertir split_def o_def)

theorem convertir_a_mayusculas_deep_witness:
  "cadenas (convertir_a_mayusculas upper ejemplo_datos) = [''TRAFO X1'', ''A'', ''B C'']
   \<and> esqueleto (convertir_a_mayusculas upper ejemplo_datos) = esqueleto ejemplo_datos"
  using convertir_a_mayusculas_deep [of upper ejemplo_datos]
  by (simp add: ejemplo_datos_def upper_def upper_char_def ascii_lowercase_def ascii_uppercase_def)

subsection \<open>The bounding box of the map\<close>

lemma bbox_square:
  assumes "bbox (x, y) buffer_m = (x0, y0, x1, y1)"
  shows "x1 - x0 = 2 * buffer_m \<and> y1 - y0 = 2 * buffer_m
       \<and> (x0 + x1) / 2 = x \<and> (y0 + y1) / 2 = y"
  using assms by (auto simp: bbox_def)

end
